theory Spec2Isabelle
  imports Main
begin

section \<open>The vidchat client: signalling and peer negotiation\<close>

text \<open>
  The repository holds two versions of the React component \<open>App\<close>:
  \<^verbatim>\<open>src/src/App.tsx\<close> and \<^verbatim>\<open>src/unnamed/part_000\<close>. Their socket handlers,
  \<open>joinRoom\<close>, \<open>initializePeerConnection\<close>, \<open>createOffer\<close> and \<open>handleOffer\<close> are the
  same text. They differ in \<open>sendMessage\<close>, and only \<^verbatim>\<open>part_000\<close> has
  \<open>startScreenShare\<close>, \<open>stopScreenShare\<close> and \<open>disconnect\<close>.

  The component is embedded as a state record and one function per handler. Everything
  a handler does to the outside world (a \<open>socket.emit\<close>, a call on the
  \<open>RTCPeerConnection\<close>, an \<open>alert\<close>, a \<open>track.stop()\<close>) is appended to a trace, in
  program order. A handler runs to its end before the next handler starts.
\<close>

subsection \<open>Data\<close>

type_synonym sdp = string
type_synonym candidate = string
type_synonym track = string

text \<open>A \<open>MediaStream\<close> is used through \<open>getTracks()\<close> only.\<close>

type_synonym stream = "track list"

text \<open>
  What the client sends to the relay: \<open>socket.emit(name, payload)\<close> for the five event
  names of the wire contract. The sixth call, \<^verbatim>\<open>socket.emit("disconnect")\<close>, is not among
  them, see \<open>disconnect\<close> below.
\<close>

datatype signal =
    Join_room string string
  | Offer_sig sdp
  | Answer_sig sdp
  | Ice_candidate_sig candidate
  | Send_message string

datatype js_error = TypeError | EngineError | ReservedEventError

datatype effect =
    Emit signal
  | Alert string
  | ConsoleLog string
  | ConsoleError string
  | PcNew
  | PcAddTrack track
  | PcCreateOffer
  | PcCreateAnswer
  | PcSetLocalDescription sdp
  | PcSetRemoteDescription sdp
  | PcAddIceCandidate candidate
  | PcClose
  | TrackStop track
  | SocketEmitDisconnect
  | Uncaught js_error

text \<open>
  The part of an \<open>RTCPeerConnection\<close> that the handlers can influence: the tracks added
  with \<open>addTrack\<close>, the two descriptions, and whether \<open>close()\<close> was called.
\<close>

record peer_connection =
  senders :: "track list"
  localDescription :: "sdp option"
  remoteDescription :: "sdp option"
  closed :: bool

definition new_peer_connection :: peer_connection where
  "new_peer_connection =
     \<lparr>senders = [], localDescription = None, remoteDescription = None, closed = False\<rparr>"

text \<open>
  The media engine is outside the repository. Its answers are a parameter: what
  \<open>createOffer\<close> and \<open>createAnswer\<close> resolve to (\<open>None\<close>: the promise rejects), and
  whether \<open>setLocalDescription\<close>, \<open>setRemoteDescription\<close>, \<open>addIceCandidate\<close> and
  \<open>addTrack\<close> succeed on a given connection.

  The socket library is outside the repository as well. \<open>disconnect\<close> is an event name
  that socket.io-client reserves: versions 3 and 4 throw when it is emitted, version 2
  calls the local listeners of that name, of which the component has none. In no version
  does a message go to the relay. Which of the two happens is the last parameter.
\<close>

record engine =
  createOffer_res :: "peer_connection \<Rightarrow> sdp option"
  createAnswer_res :: "peer_connection \<Rightarrow> sdp option"
  setLocalDescription_ok :: "peer_connection \<Rightarrow> sdp \<Rightarrow> bool"
  setRemoteDescription_ok :: "peer_connection \<Rightarrow> sdp \<Rightarrow> bool"
  addIceCandidate_ok :: "peer_connection \<Rightarrow> candidate \<Rightarrow> bool"
  addTrack_ok :: "peer_connection \<Rightarrow> track \<Rightarrow> bool"
  reserved_emit_throws :: bool

text \<open>
  The component's state: the \<open>useState\<close> cells, the refs, and the two hook results.
  \<open>socket\<close> is \<open>True\<close> when the value returned by \<open>useSocket\<close> in the current render
  is not \<open>null\<close>. A video ref is \<open>None\<close> while its element is not mounted, and
  \<open>Some src\<close> with the element's \<open>srcObject\<close> otherwise.

  The effect of \<open>App\<close> registers its socket listeners with \<open>socket.on\<close> and never removes
  them: its cleanup only closes the peer connection. \<open>listeners\<close> holds one entry for every
  run of the effect that registered a set of listeners, in the order of registration; the
  entry is the value of \<open>localStream\<close> that this run's closures captured.
  \<open>effect_deps\<close> are the dependencies \<open>[socket, localStream]\<close> of the effect's last run.
\<close>

record app =
  roomId :: string
  userId :: string
  message :: string
  messages :: "string list"
  isScreenSharing :: bool
  loading :: bool
  error :: string
  socket :: bool
  localStream :: "stream option"
  peerConnectionRef :: "peer_connection option"
  remoteVideoRef :: "stream option option"
  screenVideoRef :: "stream option option"
  listeners :: "stream option list"
  effect_deps :: "bool \<times> stream option"
  trace :: "effect list"

definition initial_app :: app where
  "initial_app =
     \<lparr>roomId = [], userId = [], message = [], messages = [], isScreenSharing = False,
      loading = False, error = [], socket = False, localStream = None,
      peerConnectionRef = None, remoteVideoRef = Some None, screenVideoRef = None,
      listeners = [], effect_deps = (False, None), trace = []\<rparr>"

subsection \<open>Effects\<close>

definition eff :: "effect \<Rightarrow> app \<Rightarrow> app" where
  "eff e st = st\<lparr>trace := trace st @ [e]\<rparr>"

text \<open>
  A handler returns the state it leaves behind and the exception that ended it, if any.
  \<open>socket.emit\<close> on a \<open>null\<close> socket is a \<open>TypeError\<close>.
\<close>

type_synonym outcome = "js_error option \<times> app"

definition emit :: "signal \<Rightarrow> app \<Rightarrow> outcome" where
  "emit m st = (if socket st then (None, eff (Emit m) st) else (Some TypeError, st))"

subsection \<open>The peer connection\<close>

text \<open>
  \<^verbatim>\<open>stream.getTracks().forEach((track) => { peerConnectionRef.current?.addTrack(track, stream); })\<close>
  A throwing \<open>addTrack\<close> ends the loop.
\<close>

fun addTracks :: "engine \<Rightarrow> track list \<Rightarrow> app \<Rightarrow> outcome" where
  "addTracks eng [] st = (None, st)"
| "addTracks eng (t # ts) st =
     (case peerConnectionRef st of
        None \<Rightarrow> addTracks eng ts st
      | Some pc \<Rightarrow>
          if addTrack_ok eng pc t
          then addTracks eng ts
                 (eff (PcAddTrack t) (st\<lparr>peerConnectionRef := Some (pc\<lparr>senders := senders pc @ [t]\<rparr>)\<rparr>))
          else (Some EngineError, eff (PcAddTrack t) st))"

definition initializePeerConnection :: "engine \<Rightarrow> app \<Rightarrow> outcome" where
  "initializePeerConnection eng st =
     (let st1 = eff PcNew (st\<lparr>peerConnectionRef := Some new_peer_connection\<rparr>)
      in case localStream st1 of
           None \<Rightarrow> (None, st1)
         | Some s \<Rightarrow> addTracks eng s st1)"

definition joinRoom :: "engine \<Rightarrow> app \<Rightarrow> outcome" where
  "joinRoom eng st =
     (if roomId st = [] \<or> userId st = []
      then (None, eff (Alert ''Please enter a room ID and your name.'') st)
      else
        (case emit (Join_room (roomId st) (userId st)) (st\<lparr>loading := True, error := []\<rparr>) of
           (Some e, st1) \<Rightarrow> (Some e, st1)
         | (None, st1) \<Rightarrow>
             (case localStream st1 of
                Some s \<Rightarrow> initializePeerConnection eng st1
              | None \<Rightarrow>
                  (None, st1\<lparr>error :=
                     ''Failed to access media devices. Please ensure permissions are granted.'',
                     loading := False\<rparr>))))"

definition createOffer :: "engine \<Rightarrow> app \<Rightarrow> outcome" where
  "createOffer eng st =
     (case peerConnectionRef st of
        None \<Rightarrow> (None, st)
      | Some pc \<Rightarrow>
          (case createOffer_res eng pc of
             None \<Rightarrow> (Some EngineError, eff PcCreateOffer st)
           | Some offer \<Rightarrow>
               if setLocalDescription_ok eng pc offer
               then emit (Offer_sig offer)
                      (eff (PcSetLocalDescription offer) (eff PcCreateOffer
                         (st\<lparr>peerConnectionRef := Some (pc\<lparr>localDescription := Some offer\<rparr>)\<rparr>)))
               else (Some EngineError, eff (PcSetLocalDescription offer) (eff PcCreateOffer st))))"

definition handleOffer :: "engine \<Rightarrow> sdp \<Rightarrow> app \<Rightarrow> outcome" where
  "handleOffer eng offer st =
     (case peerConnectionRef st of
        None \<Rightarrow> (None, st)
      | Some pc \<Rightarrow>
          if \<not> setRemoteDescription_ok eng pc offer
          then (Some EngineError, eff (PcSetRemoteDescription offer) st)
          else
            (let pc1 = pc\<lparr>remoteDescription := Some offer\<rparr>;
                 st1 = eff (PcSetRemoteDescription offer) (st\<lparr>peerConnectionRef := Some pc1\<rparr>)
             in case createAnswer_res eng pc1 of
                  None \<Rightarrow> (Some EngineError, eff PcCreateAnswer st1)
                | Some answer \<Rightarrow>
                    if setLocalDescription_ok eng pc1 answer
                    then emit (Answer_sig answer)
                           (eff (PcSetLocalDescription answer) (eff PcCreateAnswer
                              (st1\<lparr>peerConnectionRef := Some (pc1\<lparr>localDescription := Some answer\<rparr>)\<rparr>)))
                    else (Some EngineError,
                          eff (PcSetLocalDescription answer) (eff PcCreateAnswer st1))))"

subsection \<open>Socket listeners\<close>

text \<open>
  The listeners registered in the effect of \<open>App\<close>, in the order of the source. The
  \<open>user-connected\<close> listener reads \<open>localStream\<close> from its closure: \<open>captured\<close> is the
  value the stream had in the render whose effect registered the listener.
\<close>

definition on_user_connected :: "engine \<Rightarrow> string \<Rightarrow> stream option \<Rightarrow> app \<Rightarrow> outcome" where
  "on_user_connected eng uid captured st =
     (let st1 = eff (ConsoleLog (''User connected: '' @ uid)) st
      in case captured of
           Some s \<Rightarrow> createOffer eng st1
         | None \<Rightarrow> (None, st1))"

definition on_answer :: "engine \<Rightarrow> sdp \<Rightarrow> app \<Rightarrow> outcome" where
  "on_answer eng answer st =
     (case peerConnectionRef st of
        None \<Rightarrow> (None, st)
      | Some pc \<Rightarrow>
          if setRemoteDescription_ok eng pc answer
          then (None, eff (PcSetRemoteDescription answer)
                        (st\<lparr>peerConnectionRef := Some (pc\<lparr>remoteDescription := Some answer\<rparr>)\<rparr>))
          else (Some EngineError, eff (PcSetRemoteDescription answer) st))"

definition on_ice_candidate :: "engine \<Rightarrow> candidate \<Rightarrow> app \<Rightarrow> outcome" where
  "on_ice_candidate eng c st =
     (case peerConnectionRef st of
        None \<Rightarrow> (None, st)
      | Some pc \<Rightarrow>
          if addIceCandidate_ok eng pc c
          then (None, eff (PcAddIceCandidate c) st)
          else (Some EngineError, eff (PcAddIceCandidate c) st))"

definition on_receive_message :: "string \<Rightarrow> app \<Rightarrow> outcome" where
  "on_receive_message msg st = (None, st\<lparr>messages := messages st @ [msg]\<rparr>)"

text \<open>
  \<^verbatim>\<open>peerConnectionRef.current?.close()\<close>, the cleanup of the effect and the first statement
  of \<open>disconnect\<close>.
\<close>

definition close_peer_connection :: "app \<Rightarrow> app" where
  "close_peer_connection st =
     (case peerConnectionRef st of
        None \<Rightarrow> st
      | Some pc \<Rightarrow> eff PcClose (st\<lparr>peerConnectionRef := Some (pc\<lparr>closed := True\<rparr>)\<rparr>))"

subsection \<open>Callbacks of the peer connection\<close>

definition onicecandidate :: "candidate option \<Rightarrow> app \<Rightarrow> outcome" where
  "onicecandidate c st =
     (case c of
        Some cand \<Rightarrow> emit (Ice_candidate_sig cand) st
      | None \<Rightarrow> (None, st))"

definition ontrack :: "stream \<Rightarrow> app \<Rightarrow> outcome" where
  "ontrack s st =
     (case remoteVideoRef st of
        Some src \<Rightarrow> (None, st\<lparr>remoteVideoRef := Some (Some s), loading := False\<rparr>)
      | None \<Rightarrow> (None, st))"

subsection \<open>Chat\<close>

text \<open>\<open>sendMessage\<close> of \<^verbatim>\<open>src/src/App.tsx\<close>.\<close>

definition sendMessage :: "string \<Rightarrow> app \<Rightarrow> outcome" where
  "sendMessage msg st =
     (if msg \<noteq> []
      then (case emit (Send_message msg) st of
              (Some e, st1) \<Rightarrow> (Some e, st1)
            | (None, st1) \<Rightarrow> (None, st1\<lparr>messages := messages st1 @ [''Me: '' @ msg]\<rparr>))
      else (None, st))"

text \<open>\<open>sendMessage\<close> of \<^verbatim>\<open>src/unnamed/part_000\<close>.\<close>

definition sendMessage_part000 :: "string \<Rightarrow> app \<Rightarrow> outcome" where
  "sendMessage_part000 msg st =
     (if msg \<noteq> []
      then (case emit (Send_message (userId st @ '': '' @ msg)) st of
              (Some e, st1) \<Rightarrow> (Some e, st1)
            | (None, st1) \<Rightarrow> (None, st1\<lparr>messages := messages st1 @ [userId st @ '': '' @ msg]\<rparr>))
      else (None, st))"

subsection \<open>Screen sharing and disconnect (\<^verbatim>\<open>part_000\<close> only)\<close>

text \<open>The \<open>catch\<close> block of \<open>startScreenShare\<close>.\<close>

definition screen_share_failed :: "app \<Rightarrow> app" where
  "screen_share_failed st =
     (eff (ConsoleError ''Error sharing screen:'') st)
       \<lparr>error := ''Failed to share the screen. Please try again.''\<rparr>"

text \<open>
  \<open>display\<close> is what \<open>getDisplayMedia\<close> resolves to, \<open>None\<close> when it rejects.
  \<^verbatim>\<open>screenVideoRef.current!.srcObject = screenStream\<close> throws inside the \<open>try\<close> when the
  screen video element is not mounted.
\<close>

definition startScreenShare :: "engine \<Rightarrow> stream option \<Rightarrow> app \<Rightarrow> outcome" where
  "startScreenShare eng display st =
     (case display of
        None \<Rightarrow> (None, screen_share_failed st)
      | Some screenStream \<Rightarrow>
          (case peerConnectionRef st of
             None \<Rightarrow> (None, st)
           | Some pc \<Rightarrow>
               (case addTracks eng screenStream st of
                  (Some e, st1) \<Rightarrow> (None, screen_share_failed st1)
                | (None, st1) \<Rightarrow>
                    (case screenVideoRef st1 of
                       None \<Rightarrow> (None, screen_share_failed st1)
                     | Some src \<Rightarrow>
                         (None, st1\<lparr>screenVideoRef := Some (Some screenStream),
                                    isScreenSharing := True\<rparr>)))))"

definition stopScreenShare :: "app \<Rightarrow> outcome" where
  "stopScreenShare st =
     (case screenVideoRef st of
        None \<Rightarrow> (Some TypeError, st)
      | Some src \<Rightarrow>
          (let tracks = (case src of None \<Rightarrow> [] | Some s \<Rightarrow> s)
           in (None, st\<lparr>trace := trace st @ map TrackStop tracks,
                        screenVideoRef := Some None,
                        isScreenSharing := False\<rparr>)))"

text \<open>
  \<^verbatim>\<open>peerConnectionRef.current?.close(); socket.emit("disconnect");\<close>
  The second statement is a \<open>TypeError\<close> on a \<open>null\<close> socket. Otherwise the call is made
  with the reserved name: it sends nothing, and throws or not as the library has it.
\<close>

definition disconnect :: "engine \<Rightarrow> app \<Rightarrow> outcome" where
  "disconnect eng st =
     (let st1 = close_peer_connection st
      in if \<not> socket st1 then (Some TypeError, st1)
         else if reserved_emit_throws eng then (Some ReservedEventError, eff SocketEmitDisconnect st1)
         else (None, eff SocketEmitDisconnect st1))"

subsection \<open>Events and runs\<close>

datatype source_file = App_tsx | Part_000

text \<open>
  What can happen to the mounted component: a message from the relay, a callback of the
  peer connection, the result of \<open>getUserMedia\<close> in \<open>useMedia\<close>, and the user's typing
  and clicks.
\<close>

datatype event =
    User_connected string
  | Offer sdp
  | Answer sdp
  | Ice_candidate candidate
  | Receive_message string
  | Pc_icecandidate "candidate option"
  | Pc_track stream
  | Media_result "stream option"
  | Type_roomId string
  | Type_userId string
  | Type_message string
  | Click_join
  | Click_send
  | Click_start_screen_share "stream option"
  | Click_stop_screen_share
  | Click_disconnect

text \<open>\<open>getLocalMedia\<close> of \<open>useMedia\<close>.\<close>

definition getLocalMedia :: "stream option \<Rightarrow> app \<Rightarrow> outcome" where
  "getLocalMedia res st =
     (case res of
        Some s \<Rightarrow> (None, st\<lparr>localStream := Some s\<rparr>)
      | None \<Rightarrow> (None, eff (ConsoleError ''Error accessing media devices.'') st))"

text \<open>The \<open>onClick\<close> of the Send button in \<open>Chat\<close>: \<^verbatim>\<open>sendMessage(message); setMessage("")\<close>.\<close>

definition click_send :: "source_file \<Rightarrow> app \<Rightarrow> outcome" where
  "click_send src st =
     (case (case src of App_tsx \<Rightarrow> sendMessage (message st) st
                      | Part_000 \<Rightarrow> sendMessage_part000 (message st) st) of
        (Some e, st1) \<Rightarrow> (Some e, st1)
      | (None, st1) \<Rightarrow> (None, st1\<lparr>message := []\<rparr>))"

text \<open>
  An exception that leaves a handler is not caught anywhere: it is noted, and the
  component goes on with the state the handler left.
\<close>

definition uncaught :: "outcome \<Rightarrow> app" where
  "uncaught r = (case r of (None, st) \<Rightarrow> st | (Some e, st) \<Rightarrow> eff (Uncaught e) st)"

text \<open>
  A message from the relay is passed to every listener registered for it, in the order of
  registration. A listener that fails does so in a promise, so the later ones still run.
\<close>

fun run_listeners :: "(stream option \<Rightarrow> app \<Rightarrow> outcome) \<Rightarrow> stream option list \<Rightarrow> app \<Rightarrow> app" where
  "run_listeners h [] st = st"
| "run_listeners h (captured # ls) st = run_listeners h ls (uncaught (h captured st))"

text \<open>
  The callbacks of the peer connection exist once \<open>initializePeerConnection\<close> has run. In
  \<^verbatim>\<open>App.tsx\<close> the Join button is disabled while \<open>loading\<close>, and the buttons for screen
  sharing and disconnect do not exist; in \<^verbatim>\<open>part_000\<close> the Stop button is rendered
  while \<open>isScreenSharing\<close>.
\<close>

fun dispatch :: "source_file \<Rightarrow> engine \<Rightarrow> event \<Rightarrow> app \<Rightarrow> outcome" where
  "dispatch src eng (User_connected uid) st =
     (None, run_listeners (on_user_connected eng uid) (listeners st) st)"
| "dispatch src eng (Offer offer) st =
     (None, run_listeners (\<lambda>captured. handleOffer eng offer) (listeners st) st)"
| "dispatch src eng (Answer answer) st =
     (None, run_listeners (\<lambda>captured. on_answer eng answer) (listeners st) st)"
| "dispatch src eng (Ice_candidate c) st =
     (None, run_listeners (\<lambda>captured. on_ice_candidate eng c) (listeners st) st)"
| "dispatch src eng (Receive_message msg) st =
     (None, run_listeners (\<lambda>captured. on_receive_message msg) (listeners st) st)"
| "dispatch src eng (Pc_icecandidate c) st =
     (case peerConnectionRef st of None \<Rightarrow> (None, st) | Some pc \<Rightarrow> onicecandidate c st)"
| "dispatch src eng (Pc_track s) st =
     (case peerConnectionRef st of None \<Rightarrow> (None, st) | Some pc \<Rightarrow> ontrack s st)"
| "dispatch src eng (Media_result res) st = getLocalMedia res st"
| "dispatch src eng (Type_roomId s) st = (None, st\<lparr>roomId := s\<rparr>)"
| "dispatch src eng (Type_userId s) st = (None, st\<lparr>userId := s\<rparr>)"
| "dispatch src eng (Type_message s) st = (None, st\<lparr>message := s\<rparr>)"
| "dispatch src eng Click_join st =
     (if src = App_tsx \<and> loading st then (None, st) else joinRoom eng st)"
| "dispatch src eng Click_send st = click_send src st"
| "dispatch src eng (Click_start_screen_share display) st =
     (if src = Part_000 then startScreenShare eng display st else (None, st))"
| "dispatch src eng Click_stop_screen_share st =
     (if src = Part_000 \<and> isScreenSharing st then stopScreenShare st else (None, st))"
| "dispatch src eng Click_disconnect st =
     (if src = Part_000 then disconnect eng st else (None, st))"

text \<open>
  The body of the effect of \<open>App\<close>: it returns at once while \<open>socket\<close> is \<open>null\<close>, and
  otherwise registers one more set of listeners, whose closures hold the \<open>localStream\<close>
  of this render.
\<close>

definition run_effect :: "app \<Rightarrow> app" where
  "run_effect st = (if socket st then st\<lparr>listeners := listeners st @ [localStream st]\<rparr> else st)"

text \<open>
  A render follows a change of a \<open>useState\<close> cell. \<open>useSocket\<close> returns
  \<open>socketRef.current\<close> as it is during the render: \<open>null\<close> in the first render, the
  socket in every later one. After the render the effect runs again if \<open>socket\<close> or
  \<open>localStream\<close> differs from its last run: first the cleanup that the last run returned
  (it returned one if it had a socket), then the body.
\<close>

definition cells ::
  "app \<Rightarrow> string \<times> string \<times> string \<times> string list \<times> bool \<times> bool \<times> string \<times> stream option" where
  "cells st =
     (roomId st, userId st, message st, messages st, isScreenSharing st, loading st,
      error st, localStream st)"

definition rerender :: "app \<Rightarrow> app \<Rightarrow> app" where
  "rerender before st =
     (if cells st \<noteq> cells before
      then (let st1 = st\<lparr>socket := True\<rparr>
            in if (socket st1, localStream st1) \<noteq> effect_deps st1
               then (run_effect (if fst (effect_deps st1) then close_peer_connection st1 else st1))
                      \<lparr>effect_deps := (socket st1, localStream st1)\<rparr>
               else st1)
      else st)"

definition step :: "source_file \<Rightarrow> engine \<Rightarrow> app \<Rightarrow> event \<Rightarrow> app" where
  "step src eng st ev = rerender st (uncaught (dispatch src eng ev st))"

definition run :: "source_file \<Rightarrow> engine \<Rightarrow> app \<Rightarrow> event list \<Rightarrow> app" where
  "run src eng st evs = foldl (step src eng) st evs"

subsection \<open>Reading a trace\<close>

fun emitted :: "effect list \<Rightarrow> signal list" where
  "emitted [] = []"
| "emitted (Emit m # es) = m # emitted es"
| "emitted (e # es) = emitted es"

fun is_offer :: "signal \<Rightarrow> bool" where
  "is_offer (Offer_sig s) = True"
| "is_offer m = False"

definition offers_sent :: "app \<Rightarrow> signal list" where
  "offers_sent st = filter is_offer (emitted (trace st))"

text \<open>
  The calls of \<open>addIceCandidate\<close> and \<open>setRemoteDescription\<close> on the peer connection,
  in the order in which they were made.
\<close>

fun negotiation_calls :: "effect list \<Rightarrow> effect list" where
  "negotiation_calls [] = []"
| "negotiation_calls (PcAddIceCandidate c # es) = PcAddIceCandidate c # negotiation_calls es"
| "negotiation_calls (PcSetRemoteDescription d # es) =
     PcSetRemoteDescription d # negotiation_calls es"
| "negotiation_calls (e # es) = negotiation_calls es"

fun stopped_tracks :: "effect list \<Rightarrow> track list" where
  "stopped_tracks [] = []"
| "stopped_tracks (TrackStop t # es) = t # stopped_tracks es"
| "stopped_tracks (e # es) = stopped_tracks es"

fun is_user_connected :: "event \<Rightarrow> bool" where
  "is_user_connected (User_connected uid) = True"
| "is_user_connected ev = False"

subsection \<open>Two peers and the relay\<close>

text \<open>
  Modelled from the spec: the signalling relay is a server outside this repository. The
  spec has it deliver each message of a room member, unchanged and in order, to the other
  member: \<open>join-room\<close> reaches the member already present as \<open>user-connected\<close>, and
  \<open>send-message\<close> arrives as \<open>receive-message\<close> with the same payload.
\<close>

fun relay :: "signal \<Rightarrow> event" where
  "relay (Join_room room uid) = User_connected uid"
| "relay (Offer_sig s) = Offer s"
| "relay (Answer_sig s) = Answer s"
| "relay (Ice_candidate_sig c) = Ice_candidate c"
| "relay (Send_message text) = Receive_message text"

text \<open>What \<open>new\<close> has sent since it was \<open>old\<close>, as it arrives at the other peer.\<close>

definition delivered :: "app \<Rightarrow> app \<Rightarrow> event list" where
  "delivered old new =
     map relay (drop (length (emitted (trace old))) (emitted (trace new)))"

text \<open>A media engine on which every call succeeds, with a socket library of version 4.\<close>

definition willing_engine :: engine where
  "willing_engine =
     \<lparr>createOffer_res = (\<lambda>pc. Some ''offer-sdp''),
      createAnswer_res = (\<lambda>pc. Some ''answer-sdp''),
      setLocalDescription_ok = (\<lambda>pc d. True),
      setRemoteDescription_ok = (\<lambda>pc d. True),
      addIceCandidate_ok = (\<lambda>pc c. True),
      addTrack_ok = (\<lambda>pc t. True),
      reserved_emit_throws = True\<rparr>"

text \<open>A peer that got its camera and microphone, typed room and name, and clicked Join.\<close>

definition joined_peer :: "source_file \<Rightarrow> string \<Rightarrow> string \<Rightarrow> app" where
  "joined_peer src room name =
     run src willing_engine initial_app
       [Media_result (Some [''camera'', ''microphone'']), Type_roomId room, Type_userId name,
        Click_join]"

text \<open>
  A peer that typed room and name before its camera and microphone were granted, and one
  that was refused them.
\<close>

definition typed_first_peer :: "source_file \<Rightarrow> string \<Rightarrow> string \<Rightarrow> app" where
  "typed_first_peer src room name =
     run src willing_engine initial_app
       [Type_roomId room, Type_userId name, Media_result (Some [''camera'', ''microphone'']),
        Click_join]"

definition peer_without_media :: "source_file \<Rightarrow> string \<Rightarrow> string \<Rightarrow> app" where
  "peer_without_media src room name =
     run src willing_engine initial_app
       [Media_result None, Type_roomId room, Type_userId name, Click_join]"

text \<open>
  The scenario of the spec, stage by stage: alice joins \<open>r1\<close>, then bob does; alice
  hears \<open>user-connected\<close> and offers; bob answers; alice takes the answer; alice sends
  the chat text \<open>hi\<close>; bob receives it.
\<close>

definition alice_joined :: "source_file \<Rightarrow> app" where
  "alice_joined src = joined_peer src ''r1'' ''alice''"

definition bob_joined :: "source_file \<Rightarrow> app" where
  "bob_joined src = joined_peer src ''r1'' ''bob''"

definition alice_offering :: "source_file \<Rightarrow> app" where
  "alice_offering src =
     run src willing_engine (alice_joined src) (delivered initial_app (bob_joined src))"

definition bob_answered :: "source_file \<Rightarrow> app" where
  "bob_answered src =
     run src willing_engine (bob_joined src) (delivered (alice_joined src) (alice_offering src))"

definition alice_connected :: "source_file \<Rightarrow> app" where
  "alice_connected src =
     run src willing_engine (alice_offering src) (delivered (bob_joined src) (bob_answered src))"

definition alice_chatted :: "source_file \<Rightarrow> app" where
  "alice_chatted src =
     run src willing_engine (alice_connected src) [Type_message ''hi'', Click_send]"

definition bob_received :: "source_file \<Rightarrow> app" where
  "bob_received src =
     run src willing_engine (bob_answered src)
       (delivered (alice_connected src) (alice_chatted src))"

section \<open>Properties\<close>

subsection \<open>Unfolding and evaluation\<close>

lemmas handler_defs =
  eff_def emit_def initializePeerConnection_def joinRoom_def createOffer_def handleOffer_def
  on_user_connected_def on_answer_def on_ice_candidate_def on_receive_message_def
  close_peer_connection_def onicecandidate_def ontrack_def sendMessage_def
  sendMessage_part000_def screen_share_failed_def startScreenShare_def stopScreenShare_def
  disconnect_def getLocalMedia_def click_send_def

lemmas run_defs = step_def run_def rerender_def run_effect_def cells_def uncaught_def

lemmas scenario_defs =
  joined_peer_def typed_first_peer_def peer_without_media_def delivered_def willing_engine_def
  initial_app_def new_peer_connection_def

lemma run_Nil: "run src eng st [] = st"
  by (simp add: run_def)

lemma run_Cons: "run src eng st (ev # evs) = run src eng (step src eng st ev) evs"
  by (simp add: run_def)

lemma run_append: "run src eng st (xs @ ys) = run src eng (run src eng st xs) ys"
  by (simp add: run_def)

subsection \<open>Renders\<close>

lemma rerender_same_cells: "cells st = cells before \<Longrightarrow> rerender before st = st"
  by (simp add: rerender_def)

lemma rerender_trace:
  "trace (rerender before st) = trace st \<or> trace (rerender before st) = trace st @ [PcClose]"
  by (simp add: rerender_def run_effect_def close_peer_connection_def eff_def Let_def
        split: option.splits)

lemma rerender_fields:
  "userId (rerender before st) = userId st"
  "message (rerender before st) = message st"
  "messages (rerender before st) = messages st"
  "localStream (rerender before st) = localStream st"
  by (simp_all add: rerender_def run_effect_def close_peer_connection_def eff_def Let_def
        split: option.splits)

lemma rerender_socket: "socket st \<Longrightarrow> socket (rerender before st)"
  by (simp add: rerender_def run_effect_def close_peer_connection_def eff_def Let_def
        split: option.splits)

subsection \<open>What a handler sends\<close>

lemma emitted_append: "emitted (xs @ ys) = emitted xs @ emitted ys"
  by (induction xs rule: emitted.induct) simp_all

lemma emitted_map_TrackStop: "emitted (map TrackStop ts) = []"
  by (induction ts) simp_all

lemma emitted_rerender: "emitted (trace (rerender before st)) = emitted (trace st)"
  using rerender_trace [of before st] by (auto simp: emitted_append)

lemma emitted_uncaught: "emitted (trace (uncaught r)) = emitted (trace (snd r))"
  by (cases r) (simp add: uncaught_def eff_def emitted_append split: option.splits)

lemma addTracks_emitted: "emitted (trace (snd (addTracks eng ts st))) = emitted (trace st)"
  by (induction ts arbitrary: st) (simp_all add: eff_def emitted_append split: option.splits)

lemma addTracks_emitted_eq:
  "addTracks eng ts st = (r, st') \<Longrightarrow> emitted (trace st') = emitted (trace st)"
  using addTracks_emitted [of eng ts st] by simp

lemma startScreenShare_emitted:
  "emitted (trace (snd (startScreenShare eng display st))) = emitted (trace st)"
  by (auto simp: startScreenShare_def screen_share_failed_def eff_def emitted_append
           dest: addTracks_emitted_eq split: option.splits prod.splits)

lemma joinRoom_offers:
  "filter is_offer (emitted (trace (snd (joinRoom eng st)))) = filter is_offer (emitted (trace st))"
  by (auto simp: joinRoom_def initializePeerConnection_def emit_def eff_def emitted_append
           addTracks_emitted Let_def split: option.splits)

lemma run_listeners_offers:
  assumes "\<And>captured st. filter is_offer (emitted (trace (snd (h captured st)))) =
             filter is_offer (emitted (trace st))"
  shows "filter is_offer (emitted (trace (run_listeners h ls st))) =
           filter is_offer (emitted (trace st))"
  by (induction ls arbitrary: st) (simp_all add: emitted_uncaught assms)

lemma dispatch_offers:
  "\<not> is_user_connected ev \<Longrightarrow>
   filter is_offer (emitted (trace (snd (dispatch src eng ev st)))) = filter is_offer (emitted (trace st))"
proof (cases ev)
  case (Click_start_screen_share display)
  then show ?thesis by (simp add: startScreenShare_emitted)
next
  case Click_join
  then show ?thesis by (simp add: joinRoom_offers)
next
  case (Offer offer)
  have "filter is_offer (emitted (trace (snd (handleOffer eng offer s)))) =
          filter is_offer (emitted (trace s))" for s
    by (auto simp: handleOffer_def emit_def eff_def emitted_append Let_def split: option.splits)
  with Offer show ?thesis by (simp add: run_listeners_offers)
next
  case (Answer answer)
  have "filter is_offer (emitted (trace (snd (on_answer eng answer s)))) =
          filter is_offer (emitted (trace s))" for s
    by (auto simp: on_answer_def eff_def emitted_append split: option.splits)
  with Answer show ?thesis by (simp add: run_listeners_offers)
next
  case (Ice_candidate c)
  have "filter is_offer (emitted (trace (snd (on_ice_candidate eng c s)))) =
          filter is_offer (emitted (trace s))" for s
    by (auto simp: on_ice_candidate_def eff_def emitted_append split: option.splits)
  with Ice_candidate show ?thesis by (simp add: run_listeners_offers)
next
  case (Receive_message msg)
  have "filter is_offer (emitted (trace (snd (on_receive_message msg s)))) =
          filter is_offer (emitted (trace s))" for s
    by (simp add: on_receive_message_def)
  with Receive_message show ?thesis by (simp add: run_listeners_offers)
qed (auto simp: handler_defs emitted_append emitted_map_TrackStop Let_def
          split: option.splits prod.splits source_file.splits)

lemma step_offers:
  "\<not> is_user_connected ev \<Longrightarrow> offers_sent (step src eng st ev) = offers_sent st"
  by (simp add: offers_sent_def step_def emitted_rerender emitted_uncaught dispatch_offers)

subsection \<open>The stages of the scenario\<close>

lemma joined_peer_eval:
  "room \<noteq> [] \<Longrightarrow> name \<noteq> [] \<Longrightarrow>
   joined_peer src room name =
     \<lparr>roomId = room, userId = name, message = [], messages = [], isScreenSharing = False,
      loading = True, error = [], socket = True,
      localStream = Some [''camera'', ''microphone''],
      peerConnectionRef = Some \<lparr>senders = [''camera'', ''microphone''], localDescription = None,
                                remoteDescription = None, closed = False\<rparr>,
      remoteVideoRef = Some None, screenVideoRef = None,
      listeners = [Some [''camera'', ''microphone'']],
      effect_deps = (True, Some [''camera'', ''microphone'']),
      trace = [Emit (Join_room room name), PcNew, PcAddTrack ''camera'', PcAddTrack ''microphone'']\<rparr>"
  by (simp add: scenario_defs run_defs handler_defs)

text \<open>
  Typing before the media are granted makes the effect run twice with a socket, so two
  sets of listeners are registered, the first with no stream in its closures.
\<close>

lemma typed_first_peer_eval:
  "room \<noteq> [] \<Longrightarrow> name \<noteq> [] \<Longrightarrow>
   typed_first_peer src room name =
     (joined_peer src room name)\<lparr>listeners := [None, Some [''camera'', ''microphone'']]\<rparr>"
  by (simp add: joined_peer_eval) (simp add: scenario_defs run_defs handler_defs)

lemma peer_without_media_eval:
  "room \<noteq> [] \<Longrightarrow> name \<noteq> [] \<Longrightarrow>
   peer_without_media src room name =
     \<lparr>roomId = room, userId = name, message = [], messages = [], isScreenSharing = False,
      loading = False,
      error = ''Failed to access media devices. Please ensure permissions are granted.'',
      socket = True, localStream = None, peerConnectionRef = None,
      remoteVideoRef = Some None, screenVideoRef = None,
      listeners = [None], effect_deps = (True, None),
      trace = [ConsoleError ''Error accessing media devices.'', Emit (Join_room room name)]\<rparr>"
  by (simp add: scenario_defs run_defs handler_defs)

lemma alice_offering_eval:
  "alice_offering src =
     \<lparr>roomId = ''r1'', userId = ''alice'', message = [], messages = [], isScreenSharing = False,
      loading = True, error = [], socket = True,
      localStream = Some [''camera'', ''microphone''],
      peerConnectionRef = Some \<lparr>senders = [''camera'', ''microphone''],
                                localDescription = Some ''offer-sdp'',
                                remoteDescription = None, closed = False\<rparr>,
      remoteVideoRef = Some None, screenVideoRef = None,
      listeners = [Some [''camera'', ''microphone'']],
      effect_deps = (True, Some [''camera'', ''microphone'']),
      trace = [Emit (Join_room ''r1'' ''alice''), PcNew, PcAddTrack ''camera'',
               PcAddTrack ''microphone'', ConsoleLog ''User connected: bob'', PcCreateOffer,
               PcSetLocalDescription ''offer-sdp'', Emit (Offer_sig ''offer-sdp'')]\<rparr>"
  by (simp add: alice_offering_def alice_joined_def bob_joined_def joined_peer_eval delivered_def
        initial_app_def willing_engine_def run_defs handler_defs)

lemma bob_answered_eval:
  "bob_answered src =
     \<lparr>roomId = ''r1'', userId = ''bob'', message = [], messages = [], isScreenSharing = False,
      loading = True, error = [], socket = True,
      localStream = Some [''camera'', ''microphone''],
      peerConnectionRef = Some \<lparr>senders = [''camera'', ''microphone''],
                                localDescription = Some ''answer-sdp'',
                                remoteDescription = Some ''offer-sdp'', closed = False\<rparr>,
      remoteVideoRef = Some None, screenVideoRef = None,
      listeners = [Some [''camera'', ''microphone'']],
      effect_deps = (True, Some [''camera'', ''microphone'']),
      trace = [Emit (Join_room ''r1'' ''bob''), PcNew, PcAddTrack ''camera'',
               PcAddTrack ''microphone'', PcSetRemoteDescription ''offer-sdp'', PcCreateAnswer,
               PcSetLocalDescription ''answer-sdp'', Emit (Answer_sig ''answer-sdp'')]\<rparr>"
  by (simp add: bob_answered_def alice_offering_eval alice_joined_def bob_joined_def
        joined_peer_eval delivered_def willing_engine_def run_defs handler_defs)

lemma alice_connected_eval:
  "alice_connected src =
     \<lparr>roomId = ''r1'', userId = ''alice'', message = [], messages = [], isScreenSharing = False,
      loading = True, error = [], socket = True,
      localStream = Some [''camera'', ''microphone''],
      peerConnectionRef = Some \<lparr>senders = [''camera'', ''microphone''],
                                localDescription = Some ''offer-sdp'',
                                remoteDescription = Some ''answer-sdp'', closed = False\<rparr>,
      remoteVideoRef = Some None, screenVideoRef = None,
      listeners = [Some [''camera'', ''microphone'']],
      effect_deps = (True, Some [''camera'', ''microphone'']),
      trace = [Emit (Join_room ''r1'' ''alice''), PcNew, PcAddTrack ''camera'',
               PcAddTrack ''microphone'', ConsoleLog ''User connected: bob'', PcCreateOffer,
               PcSetLocalDescription ''offer-sdp'', Emit (Offer_sig ''offer-sdp''),
               PcSetRemoteDescription ''answer-sdp'']\<rparr>"
  by (simp add: alice_connected_def alice_offering_eval bob_answered_eval bob_joined_def
        joined_peer_eval delivered_def willing_engine_def run_defs handler_defs)

text \<open>
  With two sets of listeners every message from the relay is handled twice: an offer is
  answered twice, a candidate is applied twice, a chat text is listed twice. On
  \<open>user-connected\<close> both sets log, and the one that holds the stream offers.
\<close>

lemma typed_first_peer_handles_twice:
  "trace (run src willing_engine (typed_first_peer src ''r1'' ''bob'')
            [Offer ''offer-sdp'', Ice_candidate ''candidate-1'', User_connected ''carol'']) =
     [Emit (Join_room ''r1'' ''bob''), PcNew, PcAddTrack ''camera'', PcAddTrack ''microphone'',
      PcSetRemoteDescription ''offer-sdp'', PcCreateAnswer, PcSetLocalDescription ''answer-sdp'',
      Emit (Answer_sig ''answer-sdp''),
      PcSetRemoteDescription ''offer-sdp'', PcCreateAnswer, PcSetLocalDescription ''answer-sdp'',
      Emit (Answer_sig ''answer-sdp''),
      PcAddIceCandidate ''candidate-1'', PcAddIceCandidate ''candidate-1'',
      ConsoleLog ''User connected: carol'', ConsoleLog ''User connected: carol'', PcCreateOffer,
      PcSetLocalDescription ''offer-sdp'', Emit (Offer_sig ''offer-sdp'')]"
  "messages (step src willing_engine (typed_first_peer src ''r1'' ''bob'')
               (Receive_message ''alice: hi'')) = [''alice: hi'', ''alice: hi'']"
  by (simp_all add: typed_first_peer_eval joined_peer_eval willing_engine_def run_defs
        handler_defs)

subsection \<open>Chat input\<close>

text \<open>
  Claim C9. In every state, \<open>sendMessage\<close> with the empty string does nothing: it leaves
  the state as it is, so no message goes out on the socket and the list \<open>messages\<close> is
  unchanged. This holds for the \<open>sendMessage\<close> of both files, also while the socket is
  still \<open>null\<close>.
\<close>

theorem sendMessage_empty_noop:
  "sendMessage [] st = (None, st) \<and> sendMessage_part000 [] st = (None, st)"
  by (simp add: sendMessage_def sendMessage_part000_def)

subsection \<open>Without a peer connection\<close>

text \<open>
  Claim C10. While \<open>peerConnectionRef.current\<close> is \<open>null\<close>, \<open>createOffer\<close> and
  \<open>handleOffer\<close> return without an exception and leave the state, and so the trace, as
  they were: no description is created or applied and no offer or answer is emitted.
\<close>

theorem no_peer_connection_noop:
  assumes "peerConnectionRef st = None"
  shows "createOffer eng st = (None, st) \<and> handleOffer eng offer st = (None, st)"
  using assms by (simp add: createOffer_def handleOffer_def)

theorem no_peer_connection_noop_witness:
  "peerConnectionRef initial_app = None \<and>
   createOffer willing_engine initial_app = (None, initial_app) \<and>
   handleOffer willing_engine ''offer-sdp'' initial_app = (None, initial_app)"
proof -
  have h: "peerConnectionRef initial_app = None"
    by (simp add: initial_app_def)
  from no_peer_connection_noop [OF h, of willing_engine "''offer-sdp''"] h
  show ?thesis by blast
qed

subsection \<open>Joining\<close>

text \<open>
  Claim C8. When the room identifier or the user identifier is empty, \<open>joinRoom\<close> only
  raises the alert: nothing is emitted on the socket (no \<open>join-room\<close>), no peer
  connection is created, and every field of the state other than the trace keeps its
  value.
\<close>

theorem joinRoom_rejects_missing_input:
  assumes "roomId st = [] \<or> userId st = []"
  shows "joinRoom eng st =
           (None, st\<lparr>trace := trace st @ [Alert ''Please enter a room ID and your name.'']\<rparr>) \<and>
         emitted (trace (snd (joinRoom eng st))) = emitted (trace st) \<and>
         peerConnectionRef (snd (joinRoom eng st)) = peerConnectionRef st"
  using assms by (simp add: joinRoom_def eff_def emitted_append)

theorem joinRoom_rejects_missing_input_witness:
  "(roomId (initial_app\<lparr>roomId := ''r1''\<rparr>) = [] \<or> userId (initial_app\<lparr>roomId := ''r1''\<rparr>) = []) \<and>
   joinRoom willing_engine (initial_app\<lparr>roomId := ''r1''\<rparr>) =
     (None, initial_app\<lparr>roomId := ''r1'',
                         trace := [Alert ''Please enter a room ID and your name.'']\<rparr>) \<and>
   emitted (trace (snd (joinRoom willing_engine (initial_app\<lparr>roomId := ''r1''\<rparr>)))) = []"
proof -
  have h: "roomId (initial_app\<lparr>roomId := ''r1''\<rparr>) = [] \<or> userId (initial_app\<lparr>roomId := ''r1''\<rparr>) = []"
    by (simp add: initial_app_def)
  have t: "trace (initial_app\<lparr>roomId := ''r1''\<rparr>) = []"
    by (simp add: initial_app_def)
  from joinRoom_rejects_missing_input [OF h, of willing_engine] h t
  show ?thesis by simp
qed

subsection \<open>Who offers\<close>

text \<open>
  Claim C6. Over every sequence of events without a \<open>user-connected\<close> message (socket
  messages, callbacks of the peer connection, the user's typing and clicks), the
  component sends no offer: the offers it has sent are the ones it had sent before.
  This holds however many sets of listeners are registered.
\<close>

theorem no_offer_without_user_connected:
  assumes "\<forall>ev\<in>set evs. \<not> is_user_connected ev"
  shows "offers_sent (run src eng st evs) = offers_sent st"
  using assms
proof (induction evs arbitrary: st)
  case Nil
  show ?case by (simp add: run_Nil)
next
  case (Cons ev evs)
  then have "offers_sent (run src eng (step src eng st ev) evs) = offers_sent (step src eng st ev)"
    by simp
  moreover from Cons.prems have "offers_sent (step src eng st ev) = offers_sent st"
    by (simp add: step_offers)
  ultimately show ?case by (simp add: run_Cons)
qed

theorem no_offer_without_user_connected_witness:
  "list_all (\<lambda>ev. \<not> is_user_connected ev)
     [Media_result (Some [''camera'', ''microphone'']), Type_roomId ''r1'',
      Type_userId ''bob'', Click_join, Offer ''offer-sdp'', Ice_candidate ''candidate-1'',
      Pc_icecandidate (Some ''candidate-2''), Receive_message ''alice: hi'',
      Click_start_screen_share (Some [''screen'']), Click_disconnect] \<and>
   offers_sent (run Part_000 willing_engine initial_app
     [Media_result (Some [''camera'', ''microphone'']), Type_roomId ''r1'',
      Type_userId ''bob'', Click_join, Offer ''offer-sdp'', Ice_candidate ''candidate-1'',
      Pc_icecandidate (Some ''candidate-2''), Receive_message ''alice: hi'',
      Click_start_screen_share (Some [''screen'']), Click_disconnect]) = []"
proof -
  let ?evs = "[Media_result (Some [''camera'', ''microphone'']), Type_roomId ''r1'',
               Type_userId ''bob'', Click_join, Offer ''offer-sdp'', Ice_candidate ''candidate-1'',
               Pc_icecandidate (Some ''candidate-2''), Receive_message ''alice: hi'',
               Click_start_screen_share (Some [''screen'']), Click_disconnect]"
  have h: "\<forall>ev\<in>set ?evs. \<not> is_user_connected ev"
    by simp
  have t: "offers_sent initial_app = []"
    by (simp add: offers_sent_def initial_app_def)
  from no_offer_without_user_connected [OF h, of Part_000 willing_engine initial_app] h t
  show ?thesis by simp
qed

subsection \<open>Answering an offer\<close>

lemma run_listeners_handleOffer_no_peer_connection:
  "peerConnectionRef st = None \<Longrightarrow>
   run_listeners (\<lambda>captured. handleOffer eng offer) ls st = st"
  by (induction ls) (simp_all add: handleOffer_def uncaught_def)

text \<open>
  Claim C4, as the code has it. An \<open>offer\<close> message is answered only by a component
  that holds a peer connection. With the listeners registered once, a peer connection
  present (whatever descriptions it already holds) and the engine accepting the three
  calls, the offer is applied as the remote description, then an answer is created and set
  as the local description, and exactly one \<open>answer\<close> with it goes out on the socket,
  nothing else; the calls happen in this order. A component without a peer connection,
  as after a join without local media, drops the offer: its state and trace stay as they
  were.
\<close>

theorem offer_answered_once:
  "(socket st \<and> listeners st = [captured] \<and> peerConnectionRef st = Some pc \<and>
    setRemoteDescription_ok eng pc offer \<and>
    createAnswer_res eng (pc\<lparr>remoteDescription := Some offer\<rparr>) = Some answer \<and>
    setLocalDescription_ok eng (pc\<lparr>remoteDescription := Some offer\<rparr>) answer \<longrightarrow>
      step src eng st (Offer offer) =
        st\<lparr>peerConnectionRef :=
              Some (pc\<lparr>remoteDescription := Some offer, localDescription := Some answer\<rparr>),
           trace := trace st @ [PcSetRemoteDescription offer, PcCreateAnswer,
                                PcSetLocalDescription answer, Emit (Answer_sig answer)]\<rparr> \<and>
      emitted (trace (step src eng st (Offer offer))) = emitted (trace st) @ [Answer_sig answer]) \<and>
   (peerConnectionRef st = None \<longrightarrow> step src eng st (Offer offer) = st)"
proof (intro conjI impI)
  assume h: "socket st \<and> listeners st = [captured] \<and> peerConnectionRef st = Some pc \<and>
    setRemoteDescription_ok eng pc offer \<and>
    createAnswer_res eng (pc\<lparr>remoteDescription := Some offer\<rparr>) = Some answer \<and>
    setLocalDescription_ok eng (pc\<lparr>remoteDescription := Some offer\<rparr>) answer"
  then show "step src eng st (Offer offer) =
        st\<lparr>peerConnectionRef :=
              Some (pc\<lparr>remoteDescription := Some offer, localDescription := Some answer\<rparr>),
           trace := trace st @ [PcSetRemoteDescription offer, PcCreateAnswer,
                                PcSetLocalDescription answer, Emit (Answer_sig answer)]\<rparr>"
    by (simp add: step_def handleOffer_def emit_def eff_def uncaught_def rerender_def cells_def
          Let_def)
  then show "emitted (trace (step src eng st (Offer offer))) = emitted (trace st) @ [Answer_sig answer]"
    by (simp add: emitted_append)
next
  assume "peerConnectionRef st = None"
  then show "step src eng st (Offer offer) = st"
    by (simp add: step_def run_listeners_handleOffer_no_peer_connection uncaught_def
          rerender_same_cells)
qed

theorem offer_answered_once_witness:
  "listeners (bob_joined Part_000) = [Some [''camera'', ''microphone'']] \<and>
   peerConnectionRef (bob_joined Part_000) =
     Some \<lparr>senders = [''camera'', ''microphone''], localDescription = None,
           remoteDescription = None, closed = False\<rparr> \<and>
   emitted (trace (step Part_000 willing_engine (bob_joined Part_000) (Offer ''offer-sdp''))) =
     [Join_room ''r1'' ''bob'', Answer_sig ''answer-sdp''] \<and>
   peerConnectionRef (peer_without_media Part_000 ''r1'' ''bob'') = None \<and>
   step Part_000 willing_engine (peer_without_media Part_000 ''r1'' ''bob'') (Offer ''offer-sdp'') =
     peer_without_media Part_000 ''r1'' ''bob''"
proof -
  let ?pc = "\<lparr>senders = [''camera'', ''microphone''], localDescription = None,
              remoteDescription = None, closed = False\<rparr>"
  let ?cam = "Some [''camera'', ''microphone'']"
  have h1: "socket (bob_joined Part_000)"
    and h2: "listeners (bob_joined Part_000) = [?cam]"
    and h3: "peerConnectionRef (bob_joined Part_000) = Some ?pc"
    and t: "emitted (trace (bob_joined Part_000)) = [Join_room ''r1'' ''bob'']"
    by (simp_all add: bob_joined_def joined_peer_eval)
  have h4: "setRemoteDescription_ok willing_engine ?pc ''offer-sdp''"
    and h5: "createAnswer_res willing_engine (?pc\<lparr>remoteDescription := Some ''offer-sdp''\<rparr>) =
              Some ''answer-sdp''"
    and h6: "setLocalDescription_ok willing_engine (?pc\<lparr>remoteDescription := Some ''offer-sdp''\<rparr>)
              ''answer-sdp''"
    by (simp_all add: willing_engine_def)
  have n: "peerConnectionRef (peer_without_media Part_000 ''r1'' ''bob'') = None"
    by (simp add: peer_without_media_eval)
  note first = offer_answered_once [of "bob_joined Part_000" ?cam ?pc willing_engine "''offer-sdp''"
      "''answer-sdp''" Part_000, THEN conjunct1, rule_format, THEN conjunct2]
  note second = offer_answered_once [of "peer_without_media Part_000 ''r1'' ''bob''" ?cam ?pc
      willing_engine "''offer-sdp''" "''answer-sdp''" Part_000, THEN conjunct2, rule_format, OF n]
  from h1 h2 h3 h4 h5 h6 have
    "emitted (trace (step Part_000 willing_engine (bob_joined Part_000) (Offer ''offer-sdp''))) =
       emitted (trace (bob_joined Part_000)) @ [Answer_sig ''answer-sdp'']"
    by (intro first) simp
  with t h2 h3 n second show ?thesis by simp
qed

text \<open>
  Claim C4 as stated fails: bob was refused his camera and microphone and then joined
  room \<open>r1\<close>; his component holds no peer connection and no description. An offer that
  reaches him is neither applied nor answered. And a bob who typed room and name before
  the media were granted answers one offer twice.
\<close>

theorem offer_dropped_without_media:
  "roomId (peer_without_media Part_000 ''r1'' ''bob'') = ''r1'' \<and>
   emitted (trace (peer_without_media Part_000 ''r1'' ''bob'')) = [Join_room ''r1'' ''bob''] \<and>
   peerConnectionRef (peer_without_media Part_000 ''r1'' ''bob'') = None \<and>
   trace (step Part_000 willing_engine (peer_without_media Part_000 ''r1'' ''bob'')
            (Offer ''offer-sdp'')) =
     [ConsoleError ''Error accessing media devices.'', Emit (Join_room ''r1'' ''bob'')] \<and>
   peerConnectionRef (step Part_000 willing_engine (peer_without_media Part_000 ''r1'' ''bob'')
                        (Offer ''offer-sdp'')) = None \<and>
   emitted (trace (step Part_000 willing_engine (typed_first_peer Part_000 ''r1'' ''bob'')
                     (Offer ''offer-sdp''))) =
     [Join_room ''r1'' ''bob'', Answer_sig ''answer-sdp'', Answer_sig ''answer-sdp'']"
  by (simp add: peer_without_media_eval typed_first_peer_eval joined_peer_eval willing_engine_def
        run_defs handler_defs)


subsection \<open>ICE candidates\<close>

lemma negotiation_calls_append:
  "negotiation_calls (xs @ ys) = negotiation_calls xs @ negotiation_calls ys"
  by (induction xs rule: negotiation_calls.induct) simp_all

lemma step_Ice_candidate:
  assumes "listeners st = [captured]" and "peerConnectionRef st = Some pc"
  shows "step src eng st (Ice_candidate c) =
           st\<lparr>trace := trace st @ PcAddIceCandidate c #
                          (if addIceCandidate_ok eng pc c then [] else [Uncaught EngineError])\<rparr>"
  using assms
  by (simp add: step_def on_ice_candidate_def eff_def uncaught_def rerender_def cells_def)

lemma run_Ice_candidates:
  assumes "listeners st = [captured]" and "peerConnectionRef st = Some pc"
  shows "listeners (run src eng st (map Ice_candidate cs)) = [captured] \<and>
         peerConnectionRef (run src eng st (map Ice_candidate cs)) = Some pc \<and>
         negotiation_calls (trace (run src eng st (map Ice_candidate cs))) =
           negotiation_calls (trace st) @ map PcAddIceCandidate cs"
  using assms
proof (induction cs arbitrary: st)
  case Nil
  then show ?case by (simp add: run_Nil)
next
  case (Cons c cs)
  let ?st1 = "step src eng st (Ice_candidate c)"
  from Cons.prems have st1: "listeners ?st1 = [captured]" "peerConnectionRef ?st1 = Some pc"
    and calls: "negotiation_calls (trace ?st1) = negotiation_calls (trace st) @ [PcAddIceCandidate c]"
    by (simp_all add: step_Ice_candidate negotiation_calls_append)
  from Cons.IH [OF st1] calls show ?case
    by (simp add: run_Cons)
qed

lemma negotiation_calls_rerender:
  "negotiation_calls (trace (rerender before st)) = negotiation_calls (trace st)"
  using rerender_trace [of before st] by (auto simp: negotiation_calls_append)

lemma step_remote_description:
  assumes "listeners st = [captured]" and "peerConnectionRef st = Some pc"
    and "ev = Answer d \<or> ev = Offer d"
  shows "negotiation_calls (trace (step src eng st ev)) =
           negotiation_calls (trace st) @ [PcSetRemoteDescription d]"
  using assms
  by (auto simp: step_def on_answer_def handleOffer_def emit_def eff_def uncaught_def
        negotiation_calls_rerender negotiation_calls_append Let_def split: option.splits)

text \<open>
  Claim C1, as the code has it. The component keeps no buffer of candidates. While it has
  a peer connection, with the listeners registered once, every \<open>ice-candidate\<close> message
  is handed to \<open>addIceCandidate\<close> at once, on receipt and in receipt order, whether or
  not a remote description has been set. So for candidates that arrive before the remote
  description, all the \<open>addIceCandidate\<close> calls come first, in receipt order, and the
  \<open>setRemoteDescription\<close> call of the following \<open>answer\<close> or \<open>offer\<close> comes after them;
  that call applies no candidate again. This holds whatever the engine replies.
\<close>

theorem candidates_applied_on_receipt:
  assumes "listeners st = [captured]"
    and "peerConnectionRef st = Some pc"
    and "ev = Answer d \<or> ev = Offer d"
  shows "negotiation_calls (trace (run src eng st (map Ice_candidate cs))) =
           negotiation_calls (trace st) @ map PcAddIceCandidate cs \<and>
         negotiation_calls (trace (run src eng st (map Ice_candidate cs @ [ev]))) =
           negotiation_calls (trace st) @ map PcAddIceCandidate cs @ [PcSetRemoteDescription d]"
proof -
  let ?st1 = "run src eng st (map Ice_candidate cs)"
  from run_Ice_candidates [OF assms(1,2), of src eng cs]
  have st1: "listeners ?st1 = [captured]" "peerConnectionRef ?st1 = Some pc"
    and calls: "negotiation_calls (trace ?st1) = negotiation_calls (trace st) @ map PcAddIceCandidate cs"
    by simp_all
  from step_remote_description [OF st1 assms(3), of src eng] calls
  show ?thesis by (simp add: run_append run_Cons run_Nil)
qed

theorem candidates_applied_on_receipt_witness:
  "listeners (bob_joined Part_000) = [Some [''camera'', ''microphone'']] \<and>
   peerConnectionRef (bob_joined Part_000) =
     Some \<lparr>senders = [''camera'', ''microphone''], localDescription = None,
           remoteDescription = None, closed = False\<rparr> \<and>
   negotiation_calls (trace (run Part_000 willing_engine (bob_joined Part_000)
       (map Ice_candidate [''candidate-1'', ''candidate-2''] @ [Offer ''offer-sdp'']))) =
     [PcAddIceCandidate ''candidate-1'', PcAddIceCandidate ''candidate-2'',
      PcSetRemoteDescription ''offer-sdp'']"
proof -
  let ?pc = "\<lparr>senders = [''camera'', ''microphone''], localDescription = None,
              remoteDescription = None, closed = False\<rparr>"
  have h1: "listeners (bob_joined Part_000) = [Some [''camera'', ''microphone'']]"
    by (simp add: bob_joined_def joined_peer_eval)
  have h2: "peerConnectionRef (bob_joined Part_000) = Some ?pc"
    by (simp add: bob_joined_def joined_peer_eval)
  have h3: "Offer ''offer-sdp'' = Answer ''offer-sdp'' \<or> Offer ''offer-sdp'' = Offer ''offer-sdp''"
    by simp
  have t: "negotiation_calls (trace (bob_joined Part_000)) = []"
    by (simp add: bob_joined_def joined_peer_eval)
  from candidates_applied_on_receipt [OF h1 h2 h3, of Part_000 willing_engine
      "[''candidate-1'', ''candidate-2'']", THEN conjunct2] h1 h2 t
  show ?thesis by simp
qed

text \<open>
  Claim C1 as stated fails: bob has joined and holds a peer connection without a remote
  description, no \<open>setRemoteDescription\<close> has been called, and a candidate that arrives
  is applied at once.
\<close>

theorem candidate_applied_before_remote_description:
  "peerConnectionRef (bob_joined Part_000) =
     Some \<lparr>senders = [''camera'', ''microphone''], localDescription = None,
           remoteDescription = None, closed = False\<rparr> \<and>
   negotiation_calls (trace (bob_joined Part_000)) = [] \<and>
   negotiation_calls
     (trace (step Part_000 willing_engine (bob_joined Part_000) (Ice_candidate ''candidate-1''))) =
     [PcAddIceCandidate ''candidate-1'']"
  by (simp add: bob_joined_def joined_peer_eval willing_engine_def run_defs handler_defs)

subsection \<open>Screen sharing\<close>








subsection \<open>Disconnect\<close>

lemma stopped_tracks_append:
  "stopped_tracks (xs @ ys) = stopped_tracks xs @ stopped_tracks ys"
  by (induction xs rule: stopped_tracks.induct) simp_all

lemma disconnect_once:
  "peerConnectionRef (snd (disconnect eng st)) =
     map_option (\<lambda>pc. pc\<lparr>closed := True\<rparr>) (peerConnectionRef st)"
  "localStream (snd (disconnect eng st)) = localStream st"
  "stopped_tracks (trace (snd (disconnect eng st))) = stopped_tracks (trace st)"
  by (simp_all add: disconnect_def close_peer_connection_def eff_def stopped_tracks_append
        Let_def split: option.splits)

text \<open>
  Claim C3, as the code has it. In every state, \<open>disconnect\<close> closes the peer connection
  if there is one, and a second call leaves it closed, with its tracks and descriptions
  as they were. Neither call stops a media track, and the local stream stays in place.
  (What the call \<^verbatim>\<open>socket.emit("disconnect")\<close> does is left open here.)
\<close>

theorem disconnect_closes_keeps_tracks:
  "peerConnectionRef (snd (disconnect eng st)) =
     map_option (\<lambda>pc. pc\<lparr>closed := True\<rparr>) (peerConnectionRef st) \<and>
   localStream (snd (disconnect eng st)) = localStream st \<and>
   stopped_tracks (trace (snd (disconnect eng st))) = stopped_tracks (trace st) \<and>
   peerConnectionRef (snd (disconnect eng (snd (disconnect eng st)))) =
     peerConnectionRef (snd (disconnect eng st)) \<and>
   localStream (snd (disconnect eng (snd (disconnect eng st)))) = localStream st \<and>
   stopped_tracks (trace (snd (disconnect eng (snd (disconnect eng st))))) =
     stopped_tracks (trace st)"
  by (cases "peerConnectionRef st") (simp_all add: disconnect_once)

text \<open>
  Claim C3 as stated fails: after connected alice clicks Disconnect the peer connection
  is closed, but her camera and microphone tracks are still held and none was stopped.
  This is so with either behaviour of the socket library.
\<close>

theorem disconnect_stops_no_track:
  "localStream (alice_connected Part_000) = Some [''camera'', ''microphone''] \<and>
   peerConnectionRef (step Part_000 willing_engine (alice_connected Part_000) Click_disconnect) =
     Some \<lparr>senders = [''camera'', ''microphone''], localDescription = Some ''offer-sdp'',
           remoteDescription = Some ''answer-sdp'', closed = True\<rparr> \<and>
   localStream (step Part_000 willing_engine (alice_connected Part_000) Click_disconnect) =
     Some [''camera'', ''microphone''] \<and>
   stopped_tracks (trace (step Part_000 willing_engine (alice_connected Part_000)
                            Click_disconnect)) = [] \<and>
   stopped_tracks (trace (step Part_000 (willing_engine\<lparr>reserved_emit_throws := False\<rparr>)
                            (alice_connected Part_000) Click_disconnect)) = []"
  by (simp add: alice_connected_eval willing_engine_def run_defs handler_defs)

subsection \<open>Offers on user-connected\<close>

lemma run_listeners_append:
  "run_listeners h (xs @ ys) st = run_listeners h ys (run_listeners h xs st)"
  by (induction xs arbitrary: st) simp_all

lemma run_listeners_stale:
  "run_listeners (on_user_connected eng uid) (replicate k None) st =
     st\<lparr>trace := trace st @ replicate k (ConsoleLog (''User connected: '' @ uid))\<rparr>"
proof (induction k arbitrary: st)
  case 0
  show ?case by simp
next
  case (Suc k)
  have "trace st @ ConsoleLog (''User connected: '' @ uid) #
          replicate k (ConsoleLog (''User connected: '' @ uid)) =
        trace st @ replicate k (ConsoleLog (''User connected: '' @ uid)) @
          [ConsoleLog (''User connected: '' @ uid)]"
    by (simp add: replicate_append_same)
  with Suc show ?case
    by (simp add: on_user_connected_def uncaught_def eff_def replicate_append_same)
qed

text \<open>
  Claim C5, as the code has it. For every \<open>user-connected\<close> message received while a
  peer connection exists and the listeners that hold the local stream are registered
  once (\<open>k\<close> earlier sets, registered before the stream was there, only log), in
  whatever state of negotiation, the component creates one offer, sets it as the local
  description and sends exactly one \<open>offer\<close> for that message (the engine accepting the
  two calls). Nothing records that an offer is outstanding, so this holds as well when an
  earlier offer still waits for its answer.
\<close>

theorem user_connected_sends_one_offer:
  assumes "socket st"
    and "listeners st = replicate k None @ [Some s]"
    and "peerConnectionRef st = Some pc"
    and "createOffer_res eng pc = Some offer"
    and "setLocalDescription_ok eng pc offer"
  shows "step src eng st (User_connected uid) =
           st\<lparr>peerConnectionRef := Some (pc\<lparr>localDescription := Some offer\<rparr>),
              trace := trace st @ replicate k (ConsoleLog (''User connected: '' @ uid)) @
                         [ConsoleLog (''User connected: '' @ uid), PcCreateOffer,
                          PcSetLocalDescription offer, Emit (Offer_sig offer)]\<rparr> \<and>
         offers_sent (step src eng st (User_connected uid)) = offers_sent st @ [Offer_sig offer]"
proof -
  have emitted_logs: "emitted (replicate k (ConsoleLog line)) = []" for line
    by (induction k) simp_all
  from assms have
    "step src eng st (User_connected uid) =
       st\<lparr>peerConnectionRef := Some (pc\<lparr>localDescription := Some offer\<rparr>),
          trace := trace st @ replicate k (ConsoleLog (''User connected: '' @ uid)) @
                     [ConsoleLog (''User connected: '' @ uid), PcCreateOffer,
                      PcSetLocalDescription offer, Emit (Offer_sig offer)]\<rparr>"
    by (simp add: step_def run_listeners_append run_listeners_stale on_user_connected_def
          createOffer_def emit_def eff_def uncaught_def rerender_def cells_def Let_def)
  then show ?thesis
    by (simp add: offers_sent_def emitted_append emitted_logs)
qed

theorem user_connected_sends_one_offer_witness:
  "socket (alice_offering Part_000) \<and>
   listeners (alice_offering Part_000) = replicate 0 None @ [Some [''camera'', ''microphone'']] \<and>
   peerConnectionRef (alice_offering Part_000) =
     Some \<lparr>senders = [''camera'', ''microphone''], localDescription = Some ''offer-sdp'',
           remoteDescription = None, closed = False\<rparr> \<and>
   offers_sent (step Part_000 willing_engine (alice_offering Part_000) (User_connected ''bob'')) =
     [Offer_sig ''offer-sdp'', Offer_sig ''offer-sdp''] \<and>
   listeners (typed_first_peer Part_000 ''r1'' ''alice'') =
     replicate 1 None @ [Some [''camera'', ''microphone'']] \<and>
   offers_sent (step Part_000 willing_engine (typed_first_peer Part_000 ''r1'' ''alice'')
                  (User_connected ''bob'')) = [Offer_sig ''offer-sdp'']"
proof -
  let ?pc = "\<lparr>senders = [''camera'', ''microphone''], localDescription = Some ''offer-sdp'',
              remoteDescription = None, closed = False\<rparr>"
  let ?idle = "\<lparr>senders = [''camera'', ''microphone''], localDescription = None,
               remoteDescription = None, closed = False\<rparr>"
  have h1: "socket (alice_offering Part_000)"
    by (simp add: alice_offering_eval)
  have h2: "listeners (alice_offering Part_000) =
              replicate 0 None @ [Some [''camera'', ''microphone'']]"
    by (simp add: alice_offering_eval)
  have h3: "peerConnectionRef (alice_offering Part_000) = Some ?pc"
    by (simp add: alice_offering_eval)
  have h4: "createOffer_res willing_engine ?pc = Some ''offer-sdp''"
    by (simp add: willing_engine_def)
  have h5: "setLocalDescription_ok willing_engine ?pc ''offer-sdp''"
    by (simp add: willing_engine_def)
  have t: "offers_sent (alice_offering Part_000) = [Offer_sig ''offer-sdp'']"
    by (simp add: alice_offering_eval offers_sent_def)
  have g1: "socket (typed_first_peer Part_000 ''r1'' ''alice'')"
    and g2: "listeners (typed_first_peer Part_000 ''r1'' ''alice'') =
               replicate 1 None @ [Some [''camera'', ''microphone'']]"
    and g3: "peerConnectionRef (typed_first_peer Part_000 ''r1'' ''alice'') = Some ?idle"
    and u: "offers_sent (typed_first_peer Part_000 ''r1'' ''alice'') = []"
    by (simp_all add: typed_first_peer_eval joined_peer_eval offers_sent_def)
  have g4: "createOffer_res willing_engine ?idle = Some ''offer-sdp''"
    by (simp add: willing_engine_def)
  have g5: "setLocalDescription_ok willing_engine ?idle ''offer-sdp''"
    by (simp add: willing_engine_def)
  note inst = user_connected_sends_one_offer [OF h1 h2 h3 h4 h5, of Part_000 "''bob''",
      THEN conjunct2]
  note inst_stale = user_connected_sends_one_offer [OF g1 g2 g3 g4 g5, of Part_000 "''bob''",
      THEN conjunct2]
  from inst t have
    "offers_sent (step Part_000 willing_engine (alice_offering Part_000) (User_connected ''bob'')) =
       [Offer_sig ''offer-sdp'', Offer_sig ''offer-sdp'']"
    by simp
  moreover from inst_stale u have
    "offers_sent (step Part_000 willing_engine (typed_first_peer Part_000 ''r1'' ''alice'')
                    (User_connected ''bob'')) = [Offer_sig ''offer-sdp'']"
    by simp
  ultimately show ?thesis using h1 h2 h3 g2 by blast
qed

text \<open>
  Claim C5 as stated fails: alice has joined and sent no offer; two \<open>user-connected\<close>
  messages in a row, with no answer between them and the connection not closed, make her
  send two offers.
\<close>

theorem second_user_connected_sends_second_offer:
  "peerConnectionRef (alice_joined App_tsx) =
     Some \<lparr>senders = [''camera'', ''microphone''], localDescription = None,
           remoteDescription = None, closed = False\<rparr> \<and>
   offers_sent (alice_joined App_tsx) = [] \<and>
   offers_sent (run App_tsx willing_engine (alice_joined App_tsx)
                  [User_connected ''bob'', User_connected ''bob'']) =
     [Offer_sig ''offer-sdp'', Offer_sig ''offer-sdp''] \<and>
   peerConnectionRef (run App_tsx willing_engine (alice_joined App_tsx)
                        [User_connected ''bob'', User_connected ''bob'']) =
     Some \<lparr>senders = [''camera'', ''microphone''], localDescription = Some ''offer-sdp'',
           remoteDescription = None, closed = False\<rparr>"
  by (simp add: alice_joined_def joined_peer_eval offers_sent_def willing_engine_def run_defs
        handler_defs)


subsection \<open>Chat between two peers\<close>

lemma step_Type_message:
  assumes "socket a"
  shows "socket (step src eng a (Type_message msg))"
    and "userId (step src eng a (Type_message msg)) = userId a"
    and "message (step src eng a (Type_message msg)) = msg"
    and "emitted (trace (step src eng a (Type_message msg))) = emitted (trace a)"
  using assms
  by (simp_all add: step_def uncaught_def rerender_socket rerender_fields emitted_rerender)

lemma step_Click_send:
  assumes "socket a" and "message a \<noteq> []"
  shows "emitted (trace (step Part_000 eng a Click_send)) =
           emitted (trace a) @ [Send_message (userId a @ '': '' @ message a)]"
    and "emitted (trace (step App_tsx eng a Click_send)) =
           emitted (trace a) @ [Send_message (message a)]"
  using assms
  by (simp_all add: step_def click_send_def sendMessage_def sendMessage_part000_def emit_def
        eff_def uncaught_def emitted_rerender emitted_append)

lemma sent_chat:
  assumes "socket a" and "msg \<noteq> []"
  shows "delivered a (run Part_000 eng a [Type_message msg, Click_send]) =
           [Receive_message (userId a @ '': '' @ msg)]"
    and "delivered a (run App_tsx eng a [Type_message msg, Click_send]) = [Receive_message msg]"
  using assms
  by (simp_all add: delivered_def run_Cons run_Nil step_Click_send step_Type_message)

lemma step_Receive_message:
  assumes "listeners b = [captured]"
  shows "messages (step src eng b (Receive_message line)) = messages b @ [line]"
  using assms
  by (simp add: step_def on_receive_message_def uncaught_def rerender_fields)

text \<open>
  Claim C7, as the code has it. What a peer sends as a chat text it sends as
  \<open>send-message\<close>, and a receiving peer whose listeners are registered once appends what
  it receives, once, to its message list. With the \<open>sendMessage\<close> of \<^verbatim>\<open>part_000\<close>
  the text goes out with the sender's user identifier in front, so the receiver lists the
  sender's identifier, a colon and the text. With the \<open>sendMessage\<close> of
  \<^verbatim>\<open>src/src/App.tsx\<close> the bare text goes out, and the receiver lists the text without
  a sender. The relay is taken to pass the payload on as it is.
\<close>

theorem chat_as_received:
  assumes "socket a"
    and "msg \<noteq> []"
    and "listeners b = [captured]"
  shows "messages (run Part_000 eng b (delivered a (run Part_000 eng a [Type_message msg, Click_send]))) =
           messages b @ [userId a @ '': '' @ msg] \<and>
         messages (run App_tsx eng b (delivered a (run App_tsx eng a [Type_message msg, Click_send]))) =
           messages b @ [msg]"
  unfolding sent_chat [OF assms(1,2)]
  using assms(3) by (simp add: run_Cons run_Nil step_Receive_message)

theorem chat_as_received_witness:
  "socket (alice_connected Part_000) \<and>
   userId (alice_connected Part_000) = ''alice'' \<and>
   ''hi'' \<noteq> [] \<and>
   listeners (bob_answered Part_000) = [Some [''camera'', ''microphone'']] \<and>
   messages (bob_answered Part_000) = [] \<and>
   messages (bob_received Part_000) = [''alice: hi'']"
proof -
  have h1: "socket (alice_connected Part_000)"
    and u: "userId (alice_connected Part_000) = ''alice''"
    by (simp_all add: alice_connected_eval)
  have h2: "''hi'' \<noteq> []"
    by simp
  have h3: "listeners (bob_answered Part_000) = [Some [''camera'', ''microphone'']]"
    and m: "messages (bob_answered Part_000) = []"
    by (simp_all add: bob_answered_eval)
  note inst = chat_as_received [OF h1 h2 h3, of willing_engine, THEN conjunct1]
  from inst u m have "messages (bob_received Part_000) = [''alice: hi'']"
    by (simp add: bob_received_def alice_chatted_def)
  with h1 u h2 h3 m show ?thesis by blast
qed

text \<open>
  Claim C7 as stated fails for \<^verbatim>\<open>src/src/App.tsx\<close>: in the scenario of the two peers,
  with media granted before they typed, what bob lists carries no sender.
\<close>

theorem chat_without_sender_prefix:
  "messages (bob_received App_tsx) = [''hi'']"
  by (simp add: bob_received_def alice_chatted_def bob_answered_eval alice_connected_eval
        delivered_def willing_engine_def run_defs handler_defs)

end
